theory Spec2Isabelle
  imports Main
begin

section \<open>Python strings\<close>

text \<open>
  A Python \<open>str\<close> is modelled as a \<open>string\<close>; a \<open>char\<close> stands for the code point
  of the same number, so the model covers the code points below 256. The character
  classes are those of \<open>str.isspace\<close> and \<open>str.isalnum\<close> on that range.
\<close>

definition isspace :: "char \<Rightarrow> bool" where
  "isspace c = (of_char c \<in> {9, 10, 11, 12, 13, 28, 29, 30, 31, 32, 133, 160 :: nat})"

definition isalnum :: "char \<Rightarrow> bool" where
  "isalnum c =
     (let n = (of_char c :: nat) in
        (48 \<le> n \<and> n \<le> 57) \<or> (65 \<le> n \<and> n \<le> 90) \<or> (97 \<le> n \<and> n \<le> 122)
        \<or> n \<in> {170, 178, 179, 181, 185, 186, 188, 189, 190}
        \<or> (192 \<le> n \<and> n \<le> 214) \<or> (216 \<le> n \<and> n \<le> 246) \<or> (248 \<le> n \<and> n \<le> 255))"

definition lstrip :: "string \<Rightarrow> string" where
  "lstrip s = dropWhile isspace s"

definition rstrip :: "string \<Rightarrow> string" where
  "rstrip s = rev (dropWhile isspace (rev s))"

definition strip :: "string \<Rightarrow> string" where
  "strip s = rstrip (lstrip s)"

definition startswith :: "string \<Rightarrow> string \<Rightarrow> bool" where
  "startswith s p = (take (length p) s = p)"

text \<open>\<open>needle in hay\<close> on strings: \<open>needle\<close> occurs as a contiguous substring.\<close>

fun contains :: "string \<Rightarrow> string \<Rightarrow> bool" where
  "contains [] needle = (needle = [])"
| "contains (c # cs) needle = (startswith (c # cs) needle \<or> contains cs needle)"

text \<open>\<open>s.split(sep)\<close> for a separator of one character.\<close>

fun split_on :: "char \<Rightarrow> string \<Rightarrow> string list" where
  "split_on sep [] = [[]]"
| "split_on sep (c # cs) =
     (if c = sep then [] # split_on sep cs
      else (case split_on sep cs of
              [] \<Rightarrow> [[c]]
            | w # ws \<Rightarrow> (c # w) # ws))"

text \<open>\<open>sep.join(parts)\<close>.\<close>

fun join :: "string \<Rightarrow> string list \<Rightarrow> string" where
  "join sep [] = []"
| "join sep [p] = p"
| "join sep (p # q # ps) = p @ sep @ join sep (q # ps)"

text \<open>The maximal runs of non-whitespace characters (\<open>re.findall(r"\S+", s)\<close>).\<close>

fun nonwhitespace_runs :: "string \<Rightarrow> string list" where
  "nonwhitespace_runs [] = []"
| "nonwhitespace_runs (c # cs) =
     (if isspace c then nonwhitespace_runs cs
      else (case cs of
              [] \<Rightarrow> [[c]]
            | d # ds \<Rightarrow>
                if isspace d then [c] # nonwhitespace_runs cs
                else (case nonwhitespace_runs cs of
                        [] \<Rightarrow> [[c]]
                      | w # ws \<Rightarrow> (c # w) # ws)))"

section \<open>Exceptions\<close>

text \<open>
  The exceptions the library calls of the script can raise; all of them derive from
  \<open>Exception\<close>. \<open>RequestException\<close> stands for the class and its subclasses
  (connection errors, timeouts, \<open>HTTPError\<close>, malformed URLs).
\<close>

datatype exn = RequestException | KeyError | ValueError | OSError

definition is_RequestException :: "exn \<Rightarrow> bool" where
  "is_RequestException e = (e = RequestException)"

definition is_Exception :: "exn \<Rightarrow> bool" where
  "is_Exception e = True"

text \<open>
  \<open>try: body except cls: return v\<close>: an exception of the class is replaced by the
  handler's value, any other exception passes through.
\<close>

definition except :: "exn + 'a \<Rightarrow> (exn \<Rightarrow> bool) \<Rightarrow> 'a \<Rightarrow> exn + 'a" where
  "except body cls v =
     (case body of
        Inl e \<Rightarrow> if cls e then Inr v else Inl e
      | Inr r \<Rightarrow> Inr r)"

section \<open>The parsed document\<close>

text \<open>
  The tree BeautifulSoup builds: a tag has a name, its attributes (the raw attribute
  strings) and its children; the strings are text (\<open>NavigableString\<close>) or one of the
  kinds that \<open>get_text\<close> leaves out (comments, doctypes).
\<close>

datatype node =
    Tag string "(string \<times> string) list" "node list"
  | NavigableString string
  | Comment string

fun descendants :: "node \<Rightarrow> node list" where
  "descendants (Tag nm attrs cs) = concat (map (\<lambda>c. c # descendants c) cs)"
| "descendants (NavigableString s) = []"
| "descendants (Comment s) = []"

fun has_attr :: "node \<Rightarrow> string \<Rightarrow> bool" where
  "has_attr (Tag nm attrs cs) k = (map_of attrs k \<noteq> None)"
| "has_attr _ k = False"

text \<open>\<open>tag[k]\<close>: raises \<open>KeyError\<close> when the attribute is absent.\<close>

fun tag_getitem :: "node \<Rightarrow> string \<Rightarrow> exn + string" where
  "tag_getitem (Tag nm attrs cs) k =
     (case map_of attrs k of None \<Rightarrow> Inl KeyError | Some v \<Rightarrow> Inr v)"
| "tag_getitem _ k = Inl KeyError"

text \<open>\<open>tag.get(k)\<close>: the attribute's value, or nothing.\<close>

fun tag_get :: "node \<Rightarrow> string \<Rightarrow> string option" where
  "tag_get (Tag nm attrs cs) k = map_of attrs k"
| "tag_get _ k = None"

text \<open>
  A \<open>class_\<close> filter matches a tag when the string equals one of the whitespace-separated
  values of the tag's \<open>class\<close> attribute, or the values joined by single spaces.
\<close>

fun matches_class :: "node \<Rightarrow> string \<Rightarrow> bool" where
  "matches_class (Tag nm attrs cs) cls =
     (case map_of attrs ''class'' of
        None \<Rightarrow> False
      | Some v \<Rightarrow>
          (let values = nonwhitespace_runs v
           in cls \<in> set values \<or> join '' '' values = cls))"
| "matches_class _ cls = False"

fun matches :: "string \<Rightarrow> string option \<Rightarrow> node \<Rightarrow> bool" where
  "matches nm cls (Tag n attrs cs) =
     (n = nm \<and> (case cls of None \<Rightarrow> True | Some c \<Rightarrow> matches_class (Tag n attrs cs) c))"
| "matches nm cls _ = False"

definition find_all :: "node \<Rightarrow> string \<Rightarrow> string option \<Rightarrow> node list" where
  "find_all t nm cls = filter (matches nm cls) (descendants t)"

definition find :: "node \<Rightarrow> string \<Rightarrow> string option \<Rightarrow> node option" where
  "find t nm cls = (case find_all t nm cls of [] \<Rightarrow> None | r # rs \<Rightarrow> Some r)"

text \<open>\<open>tag.get_text(strip=True)\<close>: the text strings below the tag, each stripped, the empty
  ones dropped, concatenated.\<close>

fun stripped_strings :: "node list \<Rightarrow> string list" where
  "stripped_strings [] = []"
| "stripped_strings (NavigableString s # ns) =
     (if strip s = [] then stripped_strings ns else strip s # stripped_strings ns)"
| "stripped_strings (n # ns) = stripped_strings ns"

definition get_text :: "node \<Rightarrow> string" where
  "get_text t = concat (stripped_strings (descendants t))"

section \<open>The network and the world\<close>

text \<open>
  A response of \<open>requests.get\<close>: its status code, the value of its \<open>Content-Type\<close> header
  if it has one, its body as text, and what iterating over \<open>iter_content\<close> gives: the
  chunks, each written to the file, until the end or until an iteration raises (the
  stream breaks, or the write of the chunk fails).
\<close>

datatype stream_item = Chunk string | Raises exn

record response =
  status_code :: nat
  content_type :: "string option"
  resp_text :: string
  iter_content :: "stream_item list"

text \<open>
  What the script does not decide itself is a parameter of the model: the answer of the
  network to a GET request for a URL with query parameters (a response, or the exception
  that \<open>requests.get\<close> raises); the tree that \<open>BeautifulSoup(text, "html.parser")\<close> builds;
  the check of a bracketed host in \<open>urlsplit\<close>; whether \<open>open\<close> succeeds on a path, and
  the text of the exception it raises when it does not; and what other processes do to
  the files after a download is written.
\<close>

record world =
  http_get :: "string \<Rightarrow> (string \<times> string) list \<Rightarrow> exn + response"
  html_parser :: "string \<Rightarrow> node"
  check_bracketed_host :: "string \<Rightarrow> bool"
  can_open :: "string \<Rightarrow> bool"
  open_error :: "string \<Rightarrow> string"
  interference :: "(string \<rightharpoonup> string) \<Rightarrow> (string \<rightharpoonup> string)"

text \<open>\<open>response.raise_for_status()\<close> raises \<open>HTTPError\<close> for the status codes 400 to 599.\<close>

definition raise_for_status :: "response \<Rightarrow> exn + unit" where
  "raise_for_status r =
     (if 400 \<le> status_code r \<and> status_code r < 600 then Inl RequestException else Inr ())"

section \<open>search_nepjol\<close>

record article =
  title :: string
  authors :: string
  link :: string
  source :: string

definition base_url :: string where
  "base_url = ''https://www.nepjol.info/index.php/index/search/index''"

definition search_params :: "string \<Rightarrow> (string \<times> string) list" where
  "search_params query =
     [(''query'', query), (''dateFromYear'', ''''), (''dateFromMonth'', ''''),
      (''dateFromDay'', ''''), (''dateToYear'', ''''), (''dateToMonth'', ''''),
      (''dateToDay'', ''''), (''authors'', '''')]"

text \<open>The body of the inner \<open>try\<close>: one summary block to one entry.\<close>

definition parse_result :: "node \<Rightarrow> exn + article" where
  "parse_result result =
     (let link_tag = find result ''a'' None;
          title = (case link_tag of Some t \<Rightarrow> get_text t | None \<Rightarrow> ''No title'')
      in case (case link_tag of
                 Some t \<Rightarrow> if has_attr t ''href'' then tag_getitem t ''href'' else Inr ''No link''
               | None \<Rightarrow> Inr ''No link'') of
           Inl e \<Rightarrow> Inl e
         | Inr link0 \<Rightarrow>
             (let link = (if startswith link0 ''/'' then ''https://www.nepjol.info'' @ link0
                          else link0);
                  author_tag = find result ''div'' (Some ''authors'');
                  authors = (case author_tag of Some t \<Rightarrow> get_text t | None \<Rightarrow> ''No authors'');
                  source_tag = find result ''div'' (Some ''source'');
                  source = (case source_tag of Some t \<Rightarrow> get_text t
                            | None \<Rightarrow> ''Unknown source'')
              in Inr \<lparr>title = title, authors = authors, link = link, source = source\<rparr>))"

text \<open>The \<open>for\<close> loop: a block whose body raised is logged and skipped.\<close>

fun parse_results :: "node list \<Rightarrow> article list \<Rightarrow> exn + article list" where
  "parse_results [] parsed_results = Inr parsed_results"
| "parse_results (result # results) parsed_results =
     (case parse_result result of
        Inr r \<Rightarrow> parse_results results (parsed_results @ [r])
      | Inl e \<Rightarrow> if is_Exception e then parse_results results parsed_results else Inl e)"

text \<open>The body of the outer \<open>try\<close>.\<close>

definition search_body :: "world \<Rightarrow> string \<Rightarrow> exn + article list" where
  "search_body w query =
     (case http_get w base_url (search_params query) of
        Inl e \<Rightarrow> Inl e
      | Inr response \<Rightarrow>
          (case raise_for_status response of
             Inl e \<Rightarrow> Inl e
           | Inr _ \<Rightarrow>
               (let soup = html_parser w (resp_text response);
                    results = find_all soup ''div'' (Some ''obj_article_summary'')
                in if results = [] then Inr [] else parse_results results [])))"

definition search_nepjol :: "world \<Rightarrow> string \<Rightarrow> exn + article list" where
  "search_nepjol w query =
     except (except (search_body w query) is_RequestException []) is_Exception []"

section \<open>urllib.parse.urljoin\<close>

text \<open>
  The standard library's \<open>urljoin\<close> on \<open>str\<close> arguments, after CPython 3.11
  (\<open>urlsplit\<close>, \<open>urlparse\<close>, \<open>urlunsplit\<close>, \<open>urlunparse\<close>, \<open>urljoin\<close>). The validation of
  a bracketed host by the \<open>ipaddress\<close> module is the world's \<open>check_bracketed_host\<close>. The
  NFKC check of the host never fails on code points below 256 and is left out.
\<close>

definition uses_relative :: "string list" where
  "uses_relative = ['''', ''ftp'', ''http'', ''gopher'', ''nntp'', ''imap'',
     ''wais'', ''file'', ''https'', ''shttp'', ''mms'',
     ''prospero'', ''rtsp'', ''rtsps'', ''rtspu'', ''sftp'',
     ''svn'', ''svn+ssh'', ''ws'', ''wss'']"

definition uses_netloc :: "string list" where
  "uses_netloc = ['''', ''ftp'', ''http'', ''gopher'', ''nntp'', ''telnet'',
     ''imap'', ''wais'', ''file'', ''mms'', ''https'', ''shttp'',
     ''snews'', ''prospero'', ''rtsp'', ''rtsps'', ''rtspu'', ''rsync'',
     ''svn'', ''svn+ssh'', ''sftp'', ''nfs'', ''git'', ''git+ssh'',
     ''ws'', ''wss'']"

definition uses_params :: "string list" where
  "uses_params = ['''', ''ftp'', ''hdl'', ''prospero'', ''http'', ''imap'',
     ''https'', ''shttp'', ''rtsp'', ''rtsps'', ''rtspu'', ''sip'',
     ''sips'', ''mms'', ''sftp'', ''tel'']"

definition scheme_chars :: string where
  "scheme_chars = ''abcdefghijklmnopqrstuvwxyzABCDEFGHIJKLMNOPQRSTUVWXYZ0123456789+-.''"

definition c0_control_or_space :: "char \<Rightarrow> bool" where
  "c0_control_or_space c = ((of_char c :: nat) \<le> 32)"

definition unsafe_url_byte :: "char \<Rightarrow> bool" where
  "unsafe_url_byte c = (of_char c \<in> {9, 13, 10 :: nat})"

definition ascii_isalpha :: "char \<Rightarrow> bool" where
  "ascii_isalpha c =
     (let n = (of_char c :: nat) in (65 \<le> n \<and> n \<le> 90) \<or> (97 \<le> n \<and> n \<le> 122))"

definition ascii_lower :: "char \<Rightarrow> char" where
  "ascii_lower c =
     (let n = (of_char c :: nat) in if 65 \<le> n \<and> n \<le> 90 then char_of (n + 32) else c)"

text \<open>\<open>s.partition(sep)\<close>: the parts before and after the first separator.\<close>

definition before_first :: "char \<Rightarrow> string \<Rightarrow> string" where
  "before_first sep s = takeWhile (\<lambda>c. c \<noteq> sep) s"

definition after_first :: "char \<Rightarrow> string \<Rightarrow> string" where
  "after_first sep s = drop 1 (dropWhile (\<lambda>c. c \<noteq> sep) s)"

definition splitnetloc :: "string \<Rightarrow> string \<times> string" where
  "splitnetloc url =
     (let u = drop 2 url; delim = (\<lambda>c. c \<in> set ''/?#'')
      in (takeWhile (\<lambda>c. \<not> delim c) u, dropWhile (\<lambda>c. \<not> delim c) u))"

definition urlsplit ::
  "world \<Rightarrow> string \<Rightarrow> string \<Rightarrow> exn + (string \<times> string \<times> string \<times> string \<times> string)" where
  "urlsplit w url0 scheme0 =
     (let url1 = filter (\<lambda>c. \<not> unsafe_url_byte c) (dropWhile c0_control_or_space url0);
          scheme1 = filter (\<lambda>c. \<not> unsafe_url_byte c)
                      (rev (dropWhile c0_control_or_space
                         (rev (dropWhile c0_control_or_space scheme0))));
          pre = before_first CHR '':'' url1;
          (scheme, url2) =
            (if CHR '':'' \<in> set url1 \<and> pre \<noteq> [] \<and> ascii_isalpha (hd url1)
                \<and> (\<forall>c \<in> set pre. c \<in> set scheme_chars)
             then (map ascii_lower pre, after_first CHR '':'' url1)
             else (scheme1, url1));
          (netloc, url3) = (if take 2 url2 = ''//'' then splitnetloc url2 else ('''', url2))
      in if take 2 url2 = ''//''
            \<and> ((CHR ''['' \<in> set netloc \<and> CHR '']'' \<notin> set netloc)
               \<or> (CHR '']'' \<in> set netloc \<and> CHR ''['' \<notin> set netloc))
         then Inl ValueError
         else if take 2 url2 = ''//'' \<and> CHR ''['' \<in> set netloc \<and> CHR '']'' \<in> set netloc
                 \<and> \<not> check_bracketed_host w
                       (before_first CHR '']'' (after_first CHR ''['' netloc))
         then Inl ValueError
         else
           (let (url4, fragment) =
                  (if CHR ''#'' \<in> set url3
                   then (before_first CHR ''#'' url3, after_first CHR ''#'' url3)
                   else (url3, ''''));
                (url5, query) =
                  (if CHR ''?'' \<in> set url4
                   then (before_first CHR ''?'' url4, after_first CHR ''?'' url4)
                   else (url4, ''''))
            in Inr (scheme, netloc, url5, query, fragment)))"

definition splitparams :: "string \<Rightarrow> string \<times> string" where
  "splitparams url =
     (if CHR ''/'' \<in> set url
      then (let k = length url - length (before_first CHR ''/'' (rev url)) - 1;
                rest = drop k url
            in if CHR '';'' \<notin> set rest then (url, '''')
               else (let i = k + length (before_first CHR '';'' rest)
                     in (take i url, drop (i + 1) url)))
      else (before_first CHR '';'' url, after_first CHR '';'' url))"

definition urlparse ::
  "world \<Rightarrow> string \<Rightarrow> string
     \<Rightarrow> exn + (string \<times> string \<times> string \<times> string \<times> string \<times> string)" where
  "urlparse w url scheme0 =
     (case urlsplit w url scheme0 of
        Inl e \<Rightarrow> Inl e
      | Inr (scheme, netloc, url1, query, fragment) \<Rightarrow>
          (let (url2, params) =
                 (if scheme \<in> set uses_params \<and> CHR '';'' \<in> set url1 then splitparams url1
                  else (url1, ''''))
           in Inr (scheme, netloc, url2, params, query, fragment)))"

definition urlunsplit :: "string \<times> string \<times> string \<times> string \<times> string \<Rightarrow> string" where
  "urlunsplit components =
     (case components of (scheme, netloc, url0, query, fragment) \<Rightarrow>
        (let url1 =
               (if netloc \<noteq> [] \<or> (scheme \<noteq> [] \<and> scheme \<in> set uses_netloc)
                   \<or> take 2 url0 = ''//''
                then ''//'' @ netloc
                       @ (if url0 \<noteq> [] \<and> take 1 url0 \<noteq> ''/'' then ''/'' @ url0 else url0)
                else url0);
             url2 = (if scheme \<noteq> [] then scheme @ '':'' @ url1 else url1);
             url3 = (if query \<noteq> [] then url2 @ ''?'' @ query else url2)
         in if fragment \<noteq> [] then url3 @ ''#'' @ fragment else url3))"

definition urlunparse ::
  "string \<times> string \<times> string \<times> string \<times> string \<times> string \<Rightarrow> string" where
  "urlunparse components =
     (case components of (scheme, netloc, url, params, query, fragment) \<Rightarrow>
        urlunsplit (scheme, netloc,
                    (if params \<noteq> [] then url @ '';'' @ params else url), query, fragment))"

text \<open>\<open>segments[1:-1] = filter(None, segments[1:-1])\<close>.\<close>

definition filter_inner :: "string list \<Rightarrow> string list" where
  "filter_inner segments =
     (if length segments \<le> 2 then segments
      else hd segments # filter (\<lambda>seg. seg \<noteq> []) (butlast (tl segments)) @ [last segments])"

text \<open>The loop over the segments; \<open>pop\<close> on the empty list is ignored.\<close>

fun resolve_path :: "string list \<Rightarrow> string list \<Rightarrow> string list" where
  "resolve_path [] resolved_path = resolved_path"
| "resolve_path (seg # segments) resolved_path =
     (if seg = ''..'' then resolve_path segments (butlast resolved_path)
      else if seg = ''.'' then resolve_path segments resolved_path
      else resolve_path segments (resolved_path @ [seg]))"

definition urljoin :: "world \<Rightarrow> string \<Rightarrow> string \<Rightarrow> exn + string" where
  "urljoin w base url =
     (if base = [] then Inr url
      else if url = [] then Inr base
      else
        (case urlparse w base '''' of
           Inl e \<Rightarrow> Inl e
         | Inr (bscheme, bnetloc, bpath, bparams, bquery, bfragment) \<Rightarrow>
             (case urlparse w url bscheme of
                Inl e \<Rightarrow> Inl e
              | Inr (scheme, netloc0, path, params, query, fragment) \<Rightarrow>
                  if scheme \<noteq> bscheme \<or> scheme \<notin> set uses_relative then Inr url
                  else if scheme \<in> set uses_netloc \<and> netloc0 \<noteq> []
                  then Inr (urlunparse (scheme, netloc0, path, params, query, fragment))
                  else
                    (let netloc = (if scheme \<in> set uses_netloc then bnetloc else netloc0)
                     in if path = [] \<and> params = []
                        then Inr (urlunparse (scheme, netloc, bpath, bparams,
                                    (if query = [] then bquery else query), fragment))
                        else
                          (let base_parts0 = split_on CHR ''/'' bpath;
                               base_parts = (if last base_parts0 \<noteq> [] then butlast base_parts0
                                             else base_parts0);
                               segments =
                                 (if take 1 path = ''/'' then split_on CHR ''/'' path
                                  else filter_inner (base_parts @ split_on CHR ''/'' path));
                               resolved_path0 = resolve_path segments [];
                               resolved_path =
                                 (if last segments \<in> {''.'', ''..''} then resolved_path0 @ ['''']
                                  else resolved_path0);
                               joined = join ''/'' resolved_path
                           in Inr (urlunparse (scheme, netloc,
                                     (if joined = [] then ''/'' else joined),
                                     params, query, fragment)))))))"

section \<open>find_pdf_link\<close>

definition find_pdf_link_body :: "world \<Rightarrow> string \<Rightarrow> exn + string option" where
  "find_pdf_link_body w article_url =
     (case http_get w article_url [] of
        Inl e \<Rightarrow> Inl e
      | Inr response \<Rightarrow>
          (case raise_for_status response of
             Inl e \<Rightarrow> Inl e
           | Inr _ \<Rightarrow>
               (let soup = html_parser w (resp_text response);
                    pdf_viewer_link_tag = find soup ''a'' (Some ''obj_galley_link pdf'')
                in case pdf_viewer_link_tag of
                     None \<Rightarrow> Inr None
                   | Some vt \<Rightarrow>
                       if \<not> has_attr vt ''href'' then Inr None
                       else
                         (case tag_getitem vt ''href'' of
                            Inl e \<Rightarrow> Inl e
                          | Inr vhref \<Rightarrow>
                         (case urljoin w article_url vhref of
                            Inl e \<Rightarrow> Inl e
                          | Inr pdf_viewer_url \<Rightarrow>
                         (case http_get w pdf_viewer_url [] of
                            Inl e \<Rightarrow> Inl e
                          | Inr response_viewer \<Rightarrow>
                         (case raise_for_status response_viewer of
                            Inl e \<Rightarrow> Inl e
                          | Inr _ \<Rightarrow>
                         (let soup_viewer = html_parser w (resp_text response_viewer);
                              final_download_link_tag = find soup_viewer ''a'' (Some ''download'')
                          in case final_download_link_tag of
                               None \<Rightarrow> Inr None
                             | Some dt \<Rightarrow>
                                 if has_attr dt ''href''
                                 then (case tag_getitem dt ''href'' of
                                         Inl e \<Rightarrow> Inl e
                                       | Inr dhref \<Rightarrow>
                                           (case urljoin w pdf_viewer_url dhref of
                                              Inl e \<Rightarrow> Inl e
                                            | Inr final_pdf_url \<Rightarrow> Inr (Some final_pdf_url)))
                                 else Inr None))))))))"

definition find_pdf_link :: "world \<Rightarrow> string \<Rightarrow> exn + string option" where
  "find_pdf_link w article_url =
     except (except (find_pdf_link_body w article_url) is_RequestException None)
       is_Exception None"

section \<open>The file system\<close>

text \<open>
  The files are a map from paths to contents. Whether \<open>open\<close> succeeds on a path for
  writing is the world's \<open>can_open\<close>; what other processes do to the files between the
  end of a write and the following \<open>os.path.exists\<close> is the world's \<open>interference\<close>.
\<close>

type_synonym files = "string \<rightharpoonup> string"

text \<open>
  The log file of the run is kept apart from the other files. \<open>setup_logging\<close> opens it
  when the module is loaded and gives the root logger a \<open>FileHandler\<close> on it, at level
  \<open>DEBUG\<close>, so every call of \<open>logger.info\<close>, \<open>logger.warning\<close> or \<open>logger.error\<close> appends
  one record to it. A record is its level and its message; the time stamp that the
  handler puts before them is left out. The storage is the files together with the
  records of the log file. \<open>save_to_file\<close>, whose claim is about everything it writes,
  runs on the storage; for the other functions the model has their result and the
  files they open, not their log records. The console is not part of the model.
\<close>

datatype level = DEBUG | INFO | WARNING | ERROR

type_synonym log_record = "level \<times> string"

record storage =
  files :: files
  log_file :: "log_record list"

definition logger :: "level \<Rightarrow> string \<Rightarrow> storage \<Rightarrow> storage" where
  "logger lvl message st = st\<lparr>log_file := log_file st @ [(lvl, message)]\<rparr>"

definition newline :: char where
  "newline = CHR 0x0A"

text \<open>\<open>str(i)\<close> for a natural number.\<close>

fun str_nat :: "nat \<Rightarrow> string" where
  "str_nat n =
     (if n < 10 then [char_of (48 + n)]
      else str_nat (n div 10) @ [char_of (48 + n mod 10)])"

declare str_nat.simps [simp del]

section \<open>save_to_file\<close>

definition safe_query :: "string \<Rightarrow> string" where
  "safe_query query =
     rstrip (filter (\<lambda>c. isalnum c \<or> c \<in> {CHR '' '', CHR ''-'', CHR ''_''}) query)"

text \<open>The loop of \<open>save_to_file\<close>: the text written for the results from number \<open>i\<close> on.\<close>

fun write_results :: "article list \<Rightarrow> nat \<Rightarrow> string" where
  "write_results [] i = []"
| "write_results (result # results) i =
     str_nat i @ ''. '' @ title result @ [newline]
     @ ''   Authors: '' @ authors result @ [newline]
     @ ''   Source: '' @ source result @ [newline]
     @ ''   Link: '' @ link result @ [newline, newline]
     @ write_results results (Suc i)"

definition file_text :: "article list \<Rightarrow> string \<Rightarrow> string" where
  "file_text results query =
     ''NepJol Search Results for: '' @ query @ [newline]
     @ replicate 60 CHR ''='' @ [newline, newline]
     @ write_results results 1"

text \<open>
  \<open>save_to_file\<close> returns nothing; its result here is the storage it leaves. The first
  record is logged before the results are looked at. A failure of \<open>open\<close> is caught by
  the handler, which logs the exception's text. The apostrophe is \<open>CHR 0x27\<close>.
\<close>

definition save_to_file ::
  "world \<Rightarrow> storage \<Rightarrow> article list \<Rightarrow> string \<Rightarrow> string option \<Rightarrow> storage" where
  "save_to_file w st0 results query filename0 =
     (let st1 = logger INFO
                  (''Saving results to file for query: '' @ [CHR 0x27] @ query @ [CHR 0x27]) st0
      in if results = [] then logger WARNING ''No results to save'' st1
         else
           (let filename =
                  (case filename0 of
                     None \<Rightarrow> ''nepjol_results_'' @ safe_query query @ ''.txt''
                   | Some f \<Rightarrow> if f = [] then ''nepjol_results_'' @ safe_query query @ ''.txt''
                               else f)
            in case (if can_open w filename
                     then Inr (st1\<lparr>files := (files st1)(filename \<mapsto> file_text results query)\<rparr>)
                     else Inl OSError) of
                 Inr st2 \<Rightarrow> logger INFO (''Results successfully saved to: '' @ filename) st2
               | Inl e \<Rightarrow>
                   logger ERROR
                     (''Error saving to file '' @ filename @ '': '' @ open_error w filename) st1))"

section \<open>download_file\<close>

text \<open>
  The loop over \<open>response.iter_content\<close>: the content written, and the exception that
  ended the loop early, if any.
\<close>

fun write_chunks :: "stream_item list \<Rightarrow> string \<Rightarrow> string \<times> exn option" where
  "write_chunks [] written = (written, None)"
| "write_chunks (Chunk chunk # rest) written = write_chunks rest (written @ chunk)"
| "write_chunks (Raises e # rest) written = (written, Some e)"

definition download_file_body ::
  "world \<Rightarrow> files \<Rightarrow> string \<Rightarrow> string \<Rightarrow> (exn + bool) \<times> files" where
  "download_file_body w fs url filename =
     (case http_get w url [] of
        Inl e \<Rightarrow> (Inl e, fs)
      | Inr response \<Rightarrow>
          (case raise_for_status response of
             Inl e \<Rightarrow> (Inl e, fs)
           | Inr _ \<Rightarrow>
               (let ctype = (case content_type response of None \<Rightarrow> '''' | Some v \<Rightarrow> v)
                in if \<not> contains ctype ''application/pdf'' then (Inr False, fs)
                   else if \<not> can_open w filename then (Inl OSError, fs)
                   else
                     (case write_chunks (iter_content response) [] of
                        (written, Some e) \<Rightarrow> (Inl e, fs(filename \<mapsto> written))
                      | (written, None) \<Rightarrow>
                          (let fs' = interference w (fs(filename \<mapsto> written))
                           in if fs' filename \<noteq> None then (Inr True, fs')
                              else (Inr False, fs'))))))"

definition download_file ::
  "world \<Rightarrow> files \<Rightarrow> string \<Rightarrow> string \<Rightarrow> (exn + bool) \<times> files" where
  "download_file w fs url filename =
     (case download_file_body w fs url filename of
        (r, fs') \<Rightarrow> (except (except r is_RequestException False) is_Exception False, fs'))"

section \<open>The name of the downloaded file\<close>

definition clean_title :: "article \<Rightarrow> string" where
  "clean_title selected_article =
     rstrip (filter (\<lambda>c. isalnum c \<or> c \<in> {CHR '' '', CHR ''-'', CHR ''_''})
               (title selected_article))"

definition download_filename :: "article \<Rightarrow> string" where
  "download_filename selected_article = clean_title selected_article @ ''.pdf''"

section \<open>Notions used in the statements\<close>

text \<open>The \<open>href\<close> of the first anchor below a summary block, if there is one.\<close>

definition first_href :: "node \<Rightarrow> string option" where
  "first_href block =
     (case find block ''a'' None of None \<Rightarrow> None | Some t \<Rightarrow> tag_get t ''href'')"


text \<open>
  A request fails in transport when \<open>requests.get\<close> raises (network error, timeout,
  malformed URL) or when \<open>raise_for_status\<close> raises on the response.
\<close>

definition transport_failure :: "exn + response \<Rightarrow> bool" where
  "transport_failure answer =
     (case answer of
        Inl e \<Rightarrow> True
      | Inr r \<Rightarrow> 400 \<le> status_code r \<and> status_code r < 600)"

text \<open>A string is blank when all its characters are whitespace.\<close>

definition blank :: "string \<Rightarrow> bool" where
  "blank s = list_all isspace s"

section \<open>Example worlds\<close>

definition html_response :: "nat \<Rightarrow> string \<Rightarrow> response" where
  "html_response code body =
     \<lparr>status_code = code, content_type = Some ''text/html; charset=utf-8'',
      resp_text = body, iter_content = [Chunk body]\<rparr>"

text \<open>A world that answers every request by the given function of the URL, where
  every file can be opened and no other process touches the files.\<close>

definition serving :: "(string \<Rightarrow> exn + response) \<Rightarrow> (string \<Rightarrow> node) \<Rightarrow> world" where
  "serving pages parser =
     \<lparr>http_get = (\<lambda>url params. pages url), html_parser = parser,
      check_bracketed_host = (\<lambda>host. False), can_open = (\<lambda>path. True),
      open_error = (\<lambda>path. ''[Errno 13] Permission denied''),
      interference = (\<lambda>fs. fs)\<rparr>"

text \<open>A results page with two summary blocks: a complete one, whose anchor has a
  root-relative \<open>href\<close>, and an empty one.\<close>

definition results_page :: node where
  "results_page =
     Tag ''[document]'' []
       [Tag ''div'' [(''class'', ''obj_article_summary'')]
          [Tag ''h2'' [(''class'', ''title'')]
             [Tag ''a'' [(''id'', ''article-1''), (''href'', ''/index.php/njb/article/view/1'')]
                [NavigableString '' Rice yields '']],
           Tag ''div'' [(''class'', ''meta'')]
             [Tag ''div'' [(''class'', ''authors'')] [NavigableString ''R. Sharma''],
              Tag ''div'' [(''class'', ''source'')] [NavigableString ''Nepal Journal '']]],
        Tag ''div'' [(''class'', ''obj_article_summary'')] []]"

definition results_world :: world where
  "results_world = serving (\<lambda>url. Inr (html_response 200 ''results'')) (\<lambda>body. results_page)"



text \<open>A results page whose only block has an anchor with no text but spaces.\<close>

definition blank_page :: node where
  "blank_page =
     Tag ''[document]'' []
       [Tag ''div'' [(''class'', ''obj_article_summary'')]
          [Tag ''a'' [(''href'', ''/a/1'')] [NavigableString ''  '', Tag ''b'' [] []]]]"

definition blank_world :: world where
  "blank_world = serving (\<lambda>url. Inr (html_response 200 ''results'')) (\<lambda>body. blank_page)"

text \<open>A world whose search request is answered with status 300 (a redirect without a
  \<open>Location\<close>, which \<open>requests\<close> hands to the caller) and the results page as body.\<close>

definition multiple_choices_world :: world where
  "multiple_choices_world =
     serving (\<lambda>url. Inr (html_response 300 ''results'')) (\<lambda>body. results_page)"

text \<open>The site of the example: the article page at \<open>https://site/a/1\<close> links to the
  viewer with \<open>/view/1\<close>, the viewer page at \<open>https://site/view/1\<close> links to the file with
  the given \<open>href\<close>; every other request fails.\<close>

definition article_page :: node where
  "article_page =
     Tag ''[document]'' []
       [Tag ''div'' [(''class'', ''item galleys'')]
          [Tag ''a'' [(''class'', ''obj_galley_link pdf''), (''href'', ''/view/1'')]
             [NavigableString ''PDF'']]]"

definition viewer_page :: "string \<Rightarrow> node" where
  "viewer_page href =
     Tag ''[document]'' []
       [Tag ''header'' []
          [Tag ''a'' [(''class'', ''return''), (''href'', ''https://site/a/1'')]
             [NavigableString ''Return'']],
        Tag ''a'' [(''class'', ''download''), (''href'', href)] [NavigableString ''Download'']]"

definition site_world :: "string \<Rightarrow> world" where
  "site_world href =
     serving
       (\<lambda>url. if url = ''https://site/a/1'' then Inr (html_response 200 ''article'')
              else if url = ''https://site/view/1'' then Inr (html_response 200 ''viewer'')
              else Inl RequestException)
       (\<lambda>body. if body = ''article'' then article_page else viewer_page href)"

text \<open>An article page without a galley link.\<close>

definition plain_page :: node where
  "plain_page = Tag ''[document]'' [] [Tag ''a'' [(''href'', ''/about'')] [NavigableString ''About'']]"

definition plain_world :: world where
  "plain_world = serving (\<lambda>url. Inr (html_response 200 ''article'')) (\<lambda>body. plain_page)"

section \<open>A reader of the exported text\<close>

text \<open>
  Modelled from the spec: the reader of the text-export format, which the repository does
  not contain. It follows the format of section 6 of the specification line by line:
  the header line, the separator line and an empty line are skipped; every record is
  five lines, the numbered title, the \<open>Authors\<close>, \<open>Source\<close> and \<open>Link\<close> lines and an empty
  line; the number and the labels are cut off.
\<close>

definition read_title :: "string \<Rightarrow> string" where
  "read_title line = drop 2 (dropWhile (\<lambda>c. c \<noteq> CHR ''.'') line)"

fun read_records :: "string list \<Rightarrow> article list" where
  "read_records (l1 # l2 # l3 # l4 # l5 # rest) =
     \<lparr>title = read_title l1, authors = drop (length ''   Authors: '') l2,
      link = drop (length ''   Link: '') l4, source = drop (length ''   Source: '') l3\<rparr>
     # read_records rest"
| "read_records _ = []"

definition read_results :: "string \<Rightarrow> article list" where
  "read_results content = read_records (drop 3 (split_on newline content))"

text \<open>Two results that differ in where a line break sits: in the authors of the first,
  in the source of the second.\<close>

definition break_in_authors :: article where
  "break_in_authors =
     \<lparr>title = ''Rice yields'', authors = ''R. Sharma'' @ [newline] @ ''   Source: Nepal'',
      link = ''https://www.nepjol.info/a/1'', source = ''Journal''\<rparr>"

definition break_in_source :: article where
  "break_in_source =
     \<lparr>title = ''Rice yields'', authors = ''R. Sharma'',
      link = ''https://www.nepjol.info/a/1'',
      source = ''Nepal'' @ [newline] @ ''   Source: Journal''\<rparr>"

section \<open>Example downloads\<close>

definition pdf_response :: response where
  "pdf_response =
     \<lparr>status_code = 200, content_type = Some ''application/pdf'',
      resp_text = ''%PDF-1.4 body'', iter_content = [Chunk ''%PDF-1.4 '', Chunk ''body'']\<rparr>"

definition pdf_world :: world where
  "pdf_world = serving (\<lambda>url. Inr pdf_response) (\<lambda>body. Comment [])"


text \<open>A storage with one file and a log file without records, and an empty one.\<close>

definition old_storage :: storage where
  "old_storage = \<lparr>files = [''paper.pdf'' \<mapsto> ''old''], log_file = []\<rparr>"

definition empty_storage :: storage where
  "empty_storage = \<lparr>files = Map.empty, log_file = []\<rparr>"

definition rice_article :: article where
  "rice_article =
     \<lparr>title = ''Rice: yields (2020)? '', authors = ''R. Sharma'',
      link = ''https://www.nepjol.info/a/1'', source = ''Nepal Journal''\<rparr>"

section \<open>Properties of search_nepjol\<close>

lemma has_attr_getitem: "has_attr t k \<Longrightarrow> tag_getitem t k = Inr (the (tag_get t k))"
  by (cases t) auto

lemma has_attr_get: "has_attr t k = (tag_get t k \<noteq> None)"
  by (cases t) auto

text \<open>The loop body never raises: the read of \<open>href\<close> is guarded by \<open>has_attr\<close>.\<close>

lemma parse_result_eq:
  "parse_result b = Inr
     \<lparr>title = (case find b ''a'' None of None \<Rightarrow> ''No title'' | Some t \<Rightarrow> get_text t),
      authors = (case find b ''div'' (Some ''authors'') of None \<Rightarrow> ''No authors''
                 | Some t \<Rightarrow> get_text t),
      link = (case first_href b of None \<Rightarrow> ''No link''
              | Some h \<Rightarrow> if startswith h ''/'' then ''https://www.nepjol.info'' @ h else h),
      source = (case find b ''div'' (Some ''source'') of None \<Rightarrow> ''Unknown source''
                | Some t \<Rightarrow> get_text t)\<rparr>"
proof (cases "find b ''a'' None")
  case None
  then show ?thesis
    by (simp add: parse_result_def first_href_def Let_def startswith_def split: option.splits)
next
  case (Some t)
  show ?thesis
  proof (cases "has_attr t ''href''")
    case True
    then obtain h where h: "tag_get t ''href'' = Some h"
      by (auto simp: has_attr_get)
    with True have "tag_getitem t ''href'' = Inr h"
      using has_attr_getitem [of t "''href''"] by simp
    with Some True h show ?thesis
      by (simp add: parse_result_def first_href_def Let_def split: option.splits)
  next
    case False
    then have "tag_get t ''href'' = None" by (simp add: has_attr_get)
    with Some False show ?thesis
      by (simp add: parse_result_def first_href_def Let_def startswith_def split: option.splits)
  qed
qed

lemma parse_results_all:
  "\<exists>es. parse_results bs acc = Inr (acc @ es) \<and> length es = length bs
        \<and> (\<forall>i < length bs. parse_result (bs ! i) = Inr (es ! i))"
proof (induction bs arbitrary: acc)
  case Nil
  then show ?case by simp
next
  case (Cons b bs)
  obtain a where a: "parse_result b = Inr a" using parse_result_eq by blast
  from Cons.IH [of "acc @ [a]"] obtain es where
    es: "parse_results bs (acc @ [a]) = Inr ((acc @ [a]) @ es)" "length es = length bs"
        "\<forall>i < length bs. parse_result (bs ! i) = Inr (es ! i)" by blast
  have "\<forall>i < length (b # bs). parse_result ((b # bs) ! i) = Inr ((a # es) ! i)"
    using a es(3) by (auto simp: nth_Cons split: nat.splits)
  with a es(1,2) show ?case
    by (intro exI [of _ "a # es"]) simp
qed

lemma except_Inr [simp]: "except (Inr r) cls v = Inr r"
  by (simp add: except_def)

lemma except_Inl_both [simp]:
  "except (except (Inl e) is_RequestException v) is_Exception v = Inr v"
  by (simp add: except_def is_Exception_def)

lemma search_nepjol_success:
  assumes "http_get w base_url (search_params query) = Inr response"
      and "raise_for_status response = Inr ()"
  shows "\<exists>entries. search_nepjol w query = Inr entries
           \<and> length entries
               = length (find_all (html_parser w (resp_text response)) ''div''
                           (Some ''obj_article_summary''))
           \<and> (\<forall>i < length entries.
                 parse_result
                   (find_all (html_parser w (resp_text response)) ''div''
                      (Some ''obj_article_summary'') ! i) = Inr (entries ! i))"
proof -
  let ?blocks =
    "find_all (html_parser w (resp_text response)) ''div'' (Some ''obj_article_summary'')"
  from parse_results_all [of ?blocks "[]"] obtain es where
    es: "parse_results ?blocks [] = Inr es" "length es = length ?blocks"
        "\<forall>i < length ?blocks. parse_result (?blocks ! i) = Inr (es ! i)" by auto
  have "search_body w query = Inr es"
    using assms es(1,2) by (auto simp: search_body_def Let_def)
  then have "search_nepjol w query = Inr es" by (simp add: search_nepjol_def)
  with es show ?thesis by simp
qed

lemma search_nepjol_failure:
  assumes "transport_failure (http_get w base_url (search_params query))"
  shows "search_nepjol w query = Inr []"
proof -
  from assms obtain e where "search_body w query = Inl e"
    by (auto simp: transport_failure_def search_body_def raise_for_status_def split: sum.splits)
  then show ?thesis by (simp add: search_nepjol_def)
qed

lemma search_nepjol_total: "\<exists>entries. search_nepjol w query = Inr entries"
  by (cases "search_body w query") (simp_all add: search_nepjol_def)


lemma parse_result_fields:
  assumes "parse_result b = Inr a"
  shows "title a = (case find b ''a'' None of None \<Rightarrow> ''No title'' | Some t \<Rightarrow> get_text t)"
    and "authors a = (case find b ''div'' (Some ''authors'') of None \<Rightarrow> ''No authors''
                      | Some t \<Rightarrow> get_text t)"
    and "link a = (case first_href b of None \<Rightarrow> ''No link''
                   | Some h \<Rightarrow> if startswith h ''/'' then ''https://www.nepjol.info'' @ h
                               else h)"
    and "source a = (case find b ''div'' (Some ''source'') of None \<Rightarrow> ''Unknown source''
                     | Some t \<Rightarrow> get_text t)"
proof -
  from assms have "a =
     \<lparr>title = (case find b ''a'' None of None \<Rightarrow> ''No title'' | Some t \<Rightarrow> get_text t),
      authors = (case find b ''div'' (Some ''authors'') of None \<Rightarrow> ''No authors''
                 | Some t \<Rightarrow> get_text t),
      link = (case first_href b of None \<Rightarrow> ''No link''
              | Some h \<Rightarrow> if startswith h ''/'' then ''https://www.nepjol.info'' @ h else h),
      source = (case find b ''div'' (Some ''source'') of None \<Rightarrow> ''Unknown source''
                | Some t \<Rightarrow> get_text t)\<rparr>"
    by (simp add: parse_result_eq)
  then show
    "title a = (case find b ''a'' None of None \<Rightarrow> ''No title'' | Some t \<Rightarrow> get_text t)"
    "authors a = (case find b ''div'' (Some ''authors'') of None \<Rightarrow> ''No authors''
                      | Some t \<Rightarrow> get_text t)"
    "link a = (case first_href b of None \<Rightarrow> ''No link''
                   | Some h \<Rightarrow> if startswith h ''/'' then ''https://www.nepjol.info'' @ h
                               else h)"
    "source a = (case find b ''div'' (Some ''source'') of None \<Rightarrow> ''Unknown source''
                     | Some t \<Rightarrow> get_text t)"
    by simp_all
qed

lemma blank_strip:
  assumes "blank s"
  shows "strip s = []"
proof -
  from assms have d: "dropWhile isspace s = []"
    by (simp add: blank_def list_all_iff dropWhile_eq_Nil_conv)
  show ?thesis unfolding strip_def lstrip_def rstrip_def d by simp
qed

lemma stripped_strings_blank:
  "(\<forall>s. NavigableString s \<in> set ns \<longrightarrow> blank s) \<Longrightarrow> stripped_strings ns = []"
  by (induction ns rule: stripped_strings.induct) (auto simp: blank_strip)

lemma get_text_blank:
  "(\<forall>s. NavigableString s \<in> set (descendants t) \<longrightarrow> blank s) \<Longrightarrow> get_text t = []"
  by (simp add: get_text_def stripped_strings_blank)


text \<open>
  C3. When the search page is fetched, \<open>search_nepjol\<close> returns one entry for each summary
  block of the page, in page order (none for a page without blocks); each field whose
  element is absent from the block holds its sentinel (\<open>No title\<close>, \<open>No link\<close>,
  \<open>No authors\<close>, \<open>Unknown source\<close>), and no block is dropped.
\<close>

theorem search_nepjol_one_entry_per_block:
  assumes "http_get w base_url (search_params query) = Inr response"
      and "raise_for_status response = Inr ()"
      and "blocks = find_all (html_parser w (resp_text response)) ''div''
                      (Some ''obj_article_summary'')"
  shows "\<exists>entries. search_nepjol w query = Inr entries
           \<and> length entries = length blocks
           \<and> (\<forall>i < length blocks.
                 title (entries ! i)
                   = (case find (blocks ! i) ''a'' None of
                        None \<Rightarrow> ''No title'' | Some t \<Rightarrow> get_text t)
               \<and> link (entries ! i)
                   = (case first_href (blocks ! i) of
                        None \<Rightarrow> ''No link''
                      | Some h \<Rightarrow> if startswith h ''/'' then ''https://www.nepjol.info'' @ h
                                  else h)
               \<and> authors (entries ! i)
                   = (case find (blocks ! i) ''div'' (Some ''authors'') of
                        None \<Rightarrow> ''No authors'' | Some t \<Rightarrow> get_text t)
               \<and> source (entries ! i)
                   = (case find (blocks ! i) ''div'' (Some ''source'') of
                        None \<Rightarrow> ''Unknown source'' | Some t \<Rightarrow> get_text t))"
proof -
  from search_nepjol_success [OF assms(1,2)] assms(3) obtain entries where
    e: "search_nepjol w query = Inr entries" "length entries = length blocks"
       "\<forall>i < length blocks. parse_result (blocks ! i) = Inr (entries ! i)"
    by auto
  have "title (entries ! i)
          = (case find (blocks ! i) ''a'' None of None \<Rightarrow> ''No title'' | Some t \<Rightarrow> get_text t)
        \<and> link (entries ! i)
          = (case first_href (blocks ! i) of
               None \<Rightarrow> ''No link''
             | Some h \<Rightarrow> if startswith h ''/'' then ''https://www.nepjol.info'' @ h else h)
        \<and> authors (entries ! i)
          = (case find (blocks ! i) ''div'' (Some ''authors'') of
               None \<Rightarrow> ''No authors'' | Some t \<Rightarrow> get_text t)
        \<and> source (entries ! i)
          = (case find (blocks ! i) ''div'' (Some ''source'') of
               None \<Rightarrow> ''Unknown source'' | Some t \<Rightarrow> get_text t)"
    if "i < length blocks" for i
  proof -
    from e(3) that have "parse_result (blocks ! i) = Inr (entries ! i)" by simp
    from parse_result_fields [OF this] show ?thesis by simp
  qed
  with e(1,2) show ?thesis by blast
qed

theorem search_nepjol_one_entry_per_block_witness:
  "http_get results_world base_url (search_params ''rice'') = Inr (html_response 200 ''results'')
   \<and> raise_for_status (html_response 200 ''results'') = Inr ()
   \<and> (\<exists>entries. search_nepjol results_world ''rice'' = Inr entries \<and> length entries = 2)"
proof -
  have g: "http_get results_world base_url (search_params ''rice'')
             = Inr (html_response 200 ''results'')"
    by (simp add: results_world_def serving_def)
  have s: "raise_for_status (html_response 200 ''results'') = Inr ()"
    by (simp add: raise_for_status_def html_response_def)
  have n: "length (find_all (html_parser results_world (resp_text (html_response 200 ''results'')))
                     ''div'' (Some ''obj_article_summary'')) = 2"
    by code_simp
  from search_nepjol_one_entry_per_block [OF g s refl] n
  have "\<exists>entries. search_nepjol results_world ''rice'' = Inr entries \<and> length entries = 2"
    by auto
  with g s show ?thesis by simp
qed

text \<open>
  C9. When the first anchor of a summary block has no text but whitespace, the entry's
  title is the empty string; the title is \<open>No title\<close> when the block has no anchor, and
  the anchor's stripped text otherwise.
\<close>

theorem search_nepjol_blank_anchor_title:
  assumes "http_get w base_url (search_params query) = Inr response"
      and "raise_for_status response = Inr ()"
      and "blocks = find_all (html_parser w (resp_text response)) ''div''
                      (Some ''obj_article_summary'')"
      and "i < length blocks"
  shows "\<exists>entries. search_nepjol w query = Inr entries
           \<and> length entries = length blocks
           \<and> (case find (blocks ! i) ''a'' None of
                None \<Rightarrow> title (entries ! i) = ''No title''
              | Some t \<Rightarrow>
                  title (entries ! i) = get_text t
                  \<and> ((\<forall>s. NavigableString s \<in> set (descendants t) \<longrightarrow> blank s)
                       \<longrightarrow> title (entries ! i) = []))"
proof -
  from search_nepjol_success [OF assms(1,2)] assms(3) obtain entries where
    e: "search_nepjol w query = Inr entries" "length entries = length blocks"
       "\<forall>i < length blocks. parse_result (blocks ! i) = Inr (entries ! i)"
    by auto
  from e(3) assms(4) have "parse_result (blocks ! i) = Inr (entries ! i)" by simp
  then have "title (entries ! i)
           = (case find (blocks ! i) ''a'' None of None \<Rightarrow> ''No title'' | Some t \<Rightarrow> get_text t)"
    by (rule parse_result_fields)
  then have "case find (blocks ! i) ''a'' None of
                None \<Rightarrow> title (entries ! i) = ''No title''
              | Some t \<Rightarrow>
                  title (entries ! i) = get_text t
                  \<and> ((\<forall>s. NavigableString s \<in> set (descendants t) \<longrightarrow> blank s)
                       \<longrightarrow> title (entries ! i) = [])"
    by (auto simp: get_text_blank split: option.splits)
  with e(1,2) show ?thesis by blast
qed

theorem search_nepjol_blank_anchor_title_witness:
  "http_get blank_world base_url (search_params ''rice'') = Inr (html_response 200 ''results'')
   \<and> raise_for_status (html_response 200 ''results'') = Inr ()
   \<and> (\<exists>entries. search_nepjol blank_world ''rice'' = Inr entries \<and> length entries = 1
          \<and> title (entries ! 0) = [])"
proof -
  let ?blocks = "find_all (html_parser blank_world (resp_text (html_response 200 ''results'')))
                   ''div'' (Some ''obj_article_summary'')"
  let ?a = "Tag ''a'' [(''href'', ''/a/1'')] [NavigableString ''  '', Tag ''b'' [] []]"
  have g: "http_get blank_world base_url (search_params ''rice'')
             = Inr (html_response 200 ''results'')"
    by (simp add: blank_world_def serving_def)
  have s: "raise_for_status (html_response 200 ''results'') = Inr ()"
    by (simp add: raise_for_status_def html_response_def)
  have n: "length ?blocks = 1" by code_simp
  have a: "find (?blocks ! 0) ''a'' None = Some ?a" by code_simp
  have b: "\<forall>s. NavigableString s \<in> set (descendants ?a) \<longrightarrow> blank s"
    by (simp add: blank_def isspace_def)
  from search_nepjol_blank_anchor_title [OF g s refl, of 0] n a b
  have "\<exists>entries. search_nepjol blank_world ''rice'' = Inr entries \<and> length entries = 1
          \<and> title (entries ! 0) = []"
    by auto
  with g s show ?thesis by simp
qed




section \<open>Properties of find_pdf_link\<close>

lemma find_pdf_link_total: "\<exists>found. find_pdf_link w article_url = Inr found"
  by (cases "find_pdf_link_body w article_url") (simp_all add: find_pdf_link_def)

lemma find_pdf_link_first_hop_fails:
  assumes "transport_failure (http_get w article_url [])"
  shows "find_pdf_link w article_url = Inr None"
proof -
  from assms obtain e where "find_pdf_link_body w article_url = Inl e"
    by (auto simp: transport_failure_def find_pdf_link_body_def raise_for_status_def
             split: sum.splits)
  then show ?thesis by (simp add: find_pdf_link_def)
qed

lemma find_pdf_link_no_viewer_anchor:
  assumes "http_get w article_url [] = Inr response"
      and "case find (html_parser w (resp_text response)) ''a'' (Some ''obj_galley_link pdf'') of
             None \<Rightarrow> True | Some t \<Rightarrow> tag_get t ''href'' = None"
  shows "find_pdf_link w article_url = Inr None"
proof (cases "raise_for_status response")
  case (Inl e)
  with assms(1) have "find_pdf_link_body w article_url = Inl e"
    by (simp add: find_pdf_link_body_def)
  then show ?thesis by (simp add: find_pdf_link_def)
next
  case (Inr u)
  with assms have "find_pdf_link_body w article_url = Inr None"
    by (auto simp: find_pdf_link_body_def Let_def has_attr_get split: option.splits)
  then show ?thesis by (simp add: find_pdf_link_def)
qed

lemma find_pdf_link_second_hop:
  assumes "http_get w article_url [] = Inr response"
      and "raise_for_status response = Inr ()"
      and "find (html_parser w (resp_text response)) ''a'' (Some ''obj_galley_link pdf'') = Some vt"
      and "tag_get vt ''href'' = Some vhref"
      and "urljoin w article_url vhref = Inr pdf_viewer_url"
  shows "find_pdf_link_body w article_url =
           (case http_get w pdf_viewer_url [] of
              Inl e \<Rightarrow> Inl e
            | Inr response_viewer \<Rightarrow>
                (case raise_for_status response_viewer of
                   Inl e \<Rightarrow> Inl e
                 | Inr _ \<Rightarrow>
                     (case find (html_parser w (resp_text response_viewer)) ''a''
                             (Some ''download'') of
                        None \<Rightarrow> Inr None
                      | Some dt \<Rightarrow>
                          (case tag_get dt ''href'' of
                             None \<Rightarrow> Inr None
                           | Some dhref \<Rightarrow>
                               (case urljoin w pdf_viewer_url dhref of
                                  Inl e \<Rightarrow> Inl e
                                | Inr final_pdf_url \<Rightarrow> Inr (Some final_pdf_url))))))"
proof -
  from assms(4) have h: "has_attr vt ''href''" "tag_getitem vt ''href'' = Inr vhref"
    using has_attr_getitem [of vt "''href''"] by (simp_all add: has_attr_get)
  have d: "(if has_attr dt ''href''
            then (case tag_getitem dt ''href'' of
                    Inl e \<Rightarrow> Inl e
                  | Inr dhref \<Rightarrow>
                      (case urljoin w pdf_viewer_url dhref of
                         Inl e \<Rightarrow> Inl e
                       | Inr final_pdf_url \<Rightarrow> Inr (Some final_pdf_url)))
            else Inr None)
         = (case tag_get dt ''href'' of
              None \<Rightarrow> Inr None
            | Some dhref \<Rightarrow>
                (case urljoin w pdf_viewer_url dhref of
                   Inl e \<Rightarrow> Inl e
                 | Inr final_pdf_url \<Rightarrow> Inr (Some final_pdf_url)))" for dt
    using has_attr_getitem [of dt "''href''"]
    by (cases "tag_get dt ''href''") (simp_all add: has_attr_get)
  show ?thesis
    using assms(1,2,3,5) h
    by (simp add: find_pdf_link_body_def Let_def d split: sum.splits option.splits)
qed

lemma find_pdf_link_second_hop_fails:
  assumes "http_get w article_url [] = Inr response"
      and "raise_for_status response = Inr ()"
      and "find (html_parser w (resp_text response)) ''a'' (Some ''obj_galley_link pdf'') = Some vt"
      and "tag_get vt ''href'' = Some vhref"
      and "urljoin w article_url vhref = Inr pdf_viewer_url"
      and "transport_failure (http_get w pdf_viewer_url [])"
  shows "find_pdf_link w article_url = Inr None"
proof -
  from assms(6) obtain e where "find_pdf_link_body w article_url = Inl e"
    unfolding find_pdf_link_second_hop [OF assms(1-5)]
    by (auto simp: transport_failure_def raise_for_status_def split: sum.splits)
  then show ?thesis by (simp add: find_pdf_link_def)
qed

lemma find_pdf_link_success:
  assumes "http_get w article_url [] = Inr response"
      and "raise_for_status response = Inr ()"
      and "find (html_parser w (resp_text response)) ''a'' (Some ''obj_galley_link pdf'') = Some vt"
      and "tag_get vt ''href'' = Some vhref"
      and "urljoin w article_url vhref = Inr pdf_viewer_url"
      and "http_get w pdf_viewer_url [] = Inr response_viewer"
      and "raise_for_status response_viewer = Inr ()"
      and "find (html_parser w (resp_text response_viewer)) ''a'' (Some ''download'') = Some dt"
      and "tag_get dt ''href'' = Some dhref"
      and "urljoin w pdf_viewer_url dhref = Inr final_pdf_url"
  shows "find_pdf_link w article_url = Inr (Some final_pdf_url)"
proof -
  have "find_pdf_link_body w article_url = Inr (Some final_pdf_url)"
    unfolding find_pdf_link_second_hop [OF assms(1-5)]
    using assms(6-10) by simp
  then show ?thesis by (simp add: find_pdf_link_def)
qed

text \<open>
  C6, as the code has it. Neither \<open>search_nepjol\<close> nor \<open>find_pdf_link\<close> passes an
  exception to its caller. \<open>find_pdf_link\<close> returns \<open>None\<close> when the article page has no
  viewer anchor or the anchor has no \<open>href\<close>. A transport failure, that is an exception
  of the request or a status from 400 to 599, gives the empty list from \<open>search_nepjol\<close>
  and \<open>None\<close> from \<open>find_pdf_link\<close>, at the first hop and at the second.
\<close>

theorem no_exception_escapes:
  "(\<exists>entries. search_nepjol w query = Inr entries)
   \<and> (\<exists>found. find_pdf_link w article_url = Inr found)
   \<and> (transport_failure (http_get w base_url (search_params query))
        \<longrightarrow> search_nepjol w query = Inr [])
   \<and> (transport_failure (http_get w article_url [])
        \<longrightarrow> find_pdf_link w article_url = Inr None)
   \<and> (\<forall>response.
         http_get w article_url [] = Inr response
         \<and> (case find (html_parser w (resp_text response)) ''a''
                    (Some ''obj_galley_link pdf'') of
               None \<Rightarrow> True | Some t \<Rightarrow> tag_get t ''href'' = None)
         \<longrightarrow> find_pdf_link w article_url = Inr None)
   \<and> (\<forall>response vt vhref pdf_viewer_url.
         http_get w article_url [] = Inr response
         \<and> raise_for_status response = Inr ()
         \<and> find (html_parser w (resp_text response)) ''a'' (Some ''obj_galley_link pdf'')
             = Some vt
         \<and> tag_get vt ''href'' = Some vhref
         \<and> urljoin w article_url vhref = Inr pdf_viewer_url
         \<and> transport_failure (http_get w pdf_viewer_url [])
         \<longrightarrow> find_pdf_link w article_url = Inr None)"
  using search_nepjol_total [of w query] find_pdf_link_total [of w article_url]
    search_nepjol_failure [of w query] find_pdf_link_first_hop_fails [of w article_url]
    find_pdf_link_no_viewer_anchor [of w article_url]
    find_pdf_link_second_hop_fails [of w article_url]
  by blast

theorem no_exception_escapes_witness:
  "http_get plain_world ''https://site/a/1'' [] = Inr (html_response 200 ''article'')
   \<and> find (html_parser plain_world (resp_text (html_response 200 ''article''))) ''a''
        (Some ''obj_galley_link pdf'') = None
   \<and> find_pdf_link plain_world ''https://site/a/1'' = Inr None
   \<and> transport_failure (http_get (site_world ''/download/1/pdf'') ''https://site/b/2'' [])
   \<and> find_pdf_link (site_world ''/download/1/pdf'') ''https://site/b/2'' = Inr None"
proof -
  have g: "http_get plain_world ''https://site/a/1'' [] = Inr (html_response 200 ''article'')"
    by (simp add: plain_world_def serving_def)
  have a: "find (html_parser plain_world (resp_text (html_response 200 ''article''))) ''a''
        (Some ''obj_galley_link pdf'') = None"
    by code_simp
  have t: "transport_failure (http_get (site_world ''/download/1/pdf'') ''https://site/b/2'' [])"
    by (simp add: site_world_def serving_def transport_failure_def)
  from no_exception_escapes [of plain_world "''rice''" "''https://site/a/1''"] g a
  have 1: "find_pdf_link plain_world ''https://site/a/1'' = Inr None"
    by simp
  from no_exception_escapes [of "site_world ''/download/1/pdf''" "''rice''" "''https://site/b/2''"] t
  have 2: "find_pdf_link (site_world ''/download/1/pdf'') ''https://site/b/2'' = Inr None"
    by blast
  from g a t 1 2 show ?thesis by simp
qed

text \<open>
  C6 as stated fails for a status that is neither 2xx nor an error status:
  \<open>raise_for_status\<close> does not raise on 300, and the body is parsed as on success.
\<close>

theorem search_nepjol_status_300_counterexample:
  "http_get multiple_choices_world base_url (search_params ''rice'')
     = Inr (html_response 300 ''results'')
   \<and> status_code (html_response 300 ''results'') = 300
   \<and> search_nepjol multiple_choices_world ''rice'' = Inr
       [\<lparr>title = ''Rice yields'', authors = ''R. Sharma'',
         link = ''https://www.nepjol.info/index.php/njb/article/view/1'',
         source = ''Nepal Journal''\<rparr>,
        \<lparr>title = ''No title'', authors = ''No authors'', link = ''No link'',
         source = ''Unknown source''\<rparr>]"
  by code_simp

text \<open>
  C1, as the code has it. When both hops succeed, \<open>find_pdf_link\<close> returns the \<open>href\<close> of
  the download anchor joined by \<open>urljoin\<close> to the URL of the viewer page, which is the
  viewer anchor's \<open>href\<close> joined to the article URL. For the article URL
  \<open>https://site/a/1\<close>, the viewer \<open>href\<close> \<open>/view/1\<close> and the download \<open>href\<close>
  \<open>/download/1/pdf\<close>, the link is \<open>https://site/download/1/pdf\<close>: an \<open>href\<close> that begins
  with a slash replaces the whole path of the viewer URL.
\<close>

theorem find_pdf_link_joins_to_viewer_url:
  "(\<forall>response vt vhref pdf_viewer_url response_viewer dt dhref final_pdf_url.
      http_get w article_url [] = Inr response
      \<and> raise_for_status response = Inr ()
      \<and> find (html_parser w (resp_text response)) ''a'' (Some ''obj_galley_link pdf'') = Some vt
      \<and> tag_get vt ''href'' = Some vhref
      \<and> urljoin w article_url vhref = Inr pdf_viewer_url
      \<and> http_get w pdf_viewer_url [] = Inr response_viewer
      \<and> raise_for_status response_viewer = Inr ()
      \<and> find (html_parser w (resp_text response_viewer)) ''a'' (Some ''download'') = Some dt
      \<and> tag_get dt ''href'' = Some dhref
      \<and> urljoin w pdf_viewer_url dhref = Inr final_pdf_url
      \<longrightarrow> find_pdf_link w article_url = Inr (Some final_pdf_url))
   \<and> urljoin (site_world ''/download/1/pdf'') ''https://site/a/1'' ''/view/1''
       = Inr ''https://site/view/1''
   \<and> find_pdf_link (site_world ''/download/1/pdf'') ''https://site/a/1''
       = Inr (Some ''https://site/download/1/pdf'')"
proof (intro conjI)
  show "\<forall>response vt vhref pdf_viewer_url response_viewer dt dhref final_pdf_url.
      http_get w article_url [] = Inr response
      \<and> raise_for_status response = Inr ()
      \<and> find (html_parser w (resp_text response)) ''a'' (Some ''obj_galley_link pdf'') = Some vt
      \<and> tag_get vt ''href'' = Some vhref
      \<and> urljoin w article_url vhref = Inr pdf_viewer_url
      \<and> http_get w pdf_viewer_url [] = Inr response_viewer
      \<and> raise_for_status response_viewer = Inr ()
      \<and> find (html_parser w (resp_text response_viewer)) ''a'' (Some ''download'') = Some dt
      \<and> tag_get dt ''href'' = Some dhref
      \<and> urljoin w pdf_viewer_url dhref = Inr final_pdf_url
      \<longrightarrow> find_pdf_link w article_url = Inr (Some final_pdf_url)"
    using find_pdf_link_success [of w article_url] by blast
  show "urljoin (site_world ''/download/1/pdf'') ''https://site/a/1'' ''/view/1''
       = Inr ''https://site/view/1''"
    by code_simp
  show "find_pdf_link (site_world ''/download/1/pdf'') ''https://site/a/1''
       = Inr (Some ''https://site/download/1/pdf'')"
    by code_simp
qed

text \<open>The same site with the path-relative \<open>href\<close> \<open>download/1/pdf\<close> on the viewer page.\<close>

theorem find_pdf_link_joins_to_viewer_url_witness:
  "urljoin (site_world ''download/1/pdf'') ''https://site/a/1'' ''/view/1''
     = Inr ''https://site/view/1''
   \<and> urljoin (site_world ''download/1/pdf'') ''https://site/view/1'' ''download/1/pdf''
     = Inr ''https://site/view/download/1/pdf''
   \<and> find_pdf_link (site_world ''download/1/pdf'') ''https://site/a/1''
     = Inr (Some ''https://site/view/download/1/pdf'')"
proof -
  let ?w = "site_world ''download/1/pdf''"
  let ?vt = "Tag ''a'' [(''class'', ''obj_galley_link pdf''), (''href'', ''/view/1'')]
               [NavigableString ''PDF'']"
  let ?dt = "Tag ''a'' [(''class'', ''download''), (''href'', ''download/1/pdf'')]
               [NavigableString ''Download'']"
  have g1: "http_get ?w ''https://site/a/1'' [] = Inr (html_response 200 ''article'')"
    by (simp add: site_world_def serving_def)
  have s1: "raise_for_status (html_response 200 ''article'') = Inr ()"
    by (simp add: raise_for_status_def html_response_def)
  have f1: "find (html_parser ?w (resp_text (html_response 200 ''article''))) ''a''
              (Some ''obj_galley_link pdf'') = Some ?vt"
    by code_simp
  have h1: "tag_get ?vt ''href'' = Some ''/view/1''" by simp
  have j1: "urljoin ?w ''https://site/a/1'' ''/view/1'' = Inr ''https://site/view/1''"
    by code_simp
  have g2: "http_get ?w ''https://site/view/1'' [] = Inr (html_response 200 ''viewer'')"
    by (simp add: site_world_def serving_def)
  have s2: "raise_for_status (html_response 200 ''viewer'') = Inr ()"
    by (simp add: raise_for_status_def html_response_def)
  have f2: "find (html_parser ?w (resp_text (html_response 200 ''viewer''))) ''a''
              (Some ''download'') = Some ?dt"
    by code_simp
  have h2: "tag_get ?dt ''href'' = Some ''download/1/pdf''" by simp
  have j2: "urljoin ?w ''https://site/view/1'' ''download/1/pdf''
              = Inr ''https://site/view/download/1/pdf''"
    by code_simp
  from find_pdf_link_joins_to_viewer_url [of ?w "''https://site/a/1''"]
    g1 s1 f1 h1 j1 g2 s2 f2 h2 j2
  have "find_pdf_link ?w ''https://site/a/1'' = Inr (Some ''https://site/view/download/1/pdf'')"
    by blast
  with j1 j2 show ?thesis by simp
qed

text \<open>
  C1 as stated fails at its own example: the link returned for the download \<open>href\<close>
  \<open>/download/1/pdf\<close> is not \<open>https://site/view/download/1/pdf\<close>.
\<close>

theorem find_pdf_link_example_counterexample:
  "find_pdf_link (site_world ''/download/1/pdf'') ''https://site/a/1''
     = Inr (Some ''https://site/download/1/pdf'')
   \<and> find_pdf_link (site_world ''/download/1/pdf'') ''https://site/a/1''
     \<noteq> Inr (Some ''https://site/view/download/1/pdf'')"
  by code_simp

section \<open>Properties of download_file\<close>




lemma download_file_not_pdf:
  assumes "http_get w url [] = Inr response"
      and "\<not> contains (case content_type response of None \<Rightarrow> [] | Some v \<Rightarrow> v)
               ''application/pdf''"
  shows "download_file w fs url filename = (Inr False, fs)"
proof (cases "raise_for_status response")
  case (Inl e)
  with assms(1) have "download_file_body w fs url filename = (Inl e, fs)"
    by (simp add: download_file_body_def)
  then show ?thesis by (simp add: download_file_def)
next
  case (Inr u)
  with assms have "download_file_body w fs url filename = (Inr False, fs)"
    by (simp add: download_file_body_def Let_def)
  then show ?thesis by (simp add: download_file_def)
qed


text \<open>
  C4. When the \<open>Content-Type\<close> of the response does not contain \<open>application/pdf\<close> (or is
  absent), \<open>download_file\<close> returns \<open>False\<close> and leaves every file as it was, whatever the
  status code.
\<close>

theorem download_file_rejects_non_pdf:
  assumes "http_get w url [] = Inr response"
      and "\<not> contains (case content_type response of None \<Rightarrow> [] | Some v \<Rightarrow> v)
               ''application/pdf''"
  shows "download_file w fs url filename = (Inr False, fs)"
  using assms by (rule download_file_not_pdf)

theorem download_file_rejects_non_pdf_witness:
  "http_get plain_world ''https://site/download/1/pdf'' [] = Inr (html_response 200 ''article'')
   \<and> status_code (html_response 200 ''article'') = 200
   \<and> \<not> contains ''text/html; charset=utf-8'' ''application/pdf''
   \<and> download_file plain_world [''paper.pdf'' \<mapsto> ''old''] ''https://site/download/1/pdf''
        ''paper.pdf''
       = (Inr False, [''paper.pdf'' \<mapsto> ''old''])"
proof -
  have g: "http_get plain_world ''https://site/download/1/pdf'' []
             = Inr (html_response 200 ''article'')"
    by (simp add: plain_world_def serving_def)
  have c: "\<not> contains ''text/html; charset=utf-8'' ''application/pdf''"
    by code_simp
  then have c': "\<not> contains (case content_type (html_response 200 ''article'') of
                              None \<Rightarrow> [] | Some v \<Rightarrow> v) ''application/pdf''"
    by (simp add: html_response_def)
  from download_file_rejects_non_pdf [OF g c', of "[''paper.pdf'' \<mapsto> ''old'']" "''paper.pdf''"]
    g c
  show ?thesis by (simp add: html_response_def)
qed



lemma download_file_pdf_example: "download_file pdf_world Map.empty ''https://site/download/1/pdf'' ''paper.pdf''
  = (Inr True, [''paper.pdf'' \<mapsto> ''%PDF-1.4 body''])"
  by (simp add: download_file_def download_file_body_def pdf_world_def serving_def
        pdf_response_def raise_for_status_def startswith_def)

section \<open>The name of the downloaded file and save_to_file\<close>

lemma set_rstrip: "set (rstrip s) \<subseteq> set s"
  unfolding rstrip_def using set_dropWhileD [of _ isspace "rev s"] by auto

lemma last_rstrip: "rstrip s \<noteq> [] \<Longrightarrow> \<not> isspace (last (rstrip s))"
  unfolding rstrip_def by (simp add: last_rev hd_dropWhile)

text \<open>
  C7. The name of the downloaded file is the title without the characters that are
  neither alphanumeric nor a space, a hyphen or an underscore, without trailing
  whitespace, followed by \<open>.pdf\<close>; so it is made of allowed characters and \<open>.pdf\<close>.
\<close>

theorem download_filename_sanitized:
  "\<exists>stem. download_filename selected_article = stem @ ''.pdf''
     \<and> stem = rstrip (filter (\<lambda>c. isalnum c \<or> c = CHR '' '' \<or> c = CHR ''-'' \<or> c = CHR ''_'')
                        (title selected_article))
     \<and> (\<forall>c \<in> set stem. isalnum c \<or> c = CHR '' '' \<or> c = CHR ''-'' \<or> c = CHR ''_'')
     \<and> (stem \<noteq> [] \<longrightarrow> \<not> isspace (last stem))"
proof -
  let ?allowed = "\<lambda>c. isalnum c \<or> c = CHR '' '' \<or> c = CHR ''-'' \<or> c = CHR ''_''"
  let ?stem = "rstrip (filter ?allowed (title selected_article))"
  have "download_filename selected_article = ?stem @ ''.pdf''"
    by (simp add: download_filename_def clean_title_def)
  moreover have "\<forall>c \<in> set ?stem. ?allowed c"
    using set_rstrip [of "filter ?allowed (title selected_article)"] by auto
  moreover have "?stem \<noteq> [] \<longrightarrow> \<not> isspace (last ?stem)"
    using last_rstrip by blast
  ultimately show ?thesis by blast
qed

theorem download_filename_sanitized_witness:
  "title rice_article = ''Rice: yields (2020)? ''
   \<and> download_filename rice_article = ''Rice yields 2020.pdf''"
proof -
  have t: "title rice_article = ''Rice: yields (2020)? ''"
    by (simp add: rice_article_def)
  have e: "rstrip (filter (\<lambda>c. isalnum c \<or> c = CHR '' '' \<or> c = CHR ''-'' \<or> c = CHR ''_'')
                     (title rice_article)) = ''Rice yields 2020''"
    by code_simp
  from download_filename_sanitized [of rice_article] e
  have "download_filename rice_article = ''Rice yields 2020.pdf''"
    by auto
  with t show ?thesis by simp
qed

text \<open>
  C10, as the code has it. With an empty list of results \<open>save_to_file\<close> creates, opens
  and writes no file but the log file of the run: it appends two records to the log
  file, the \<open>INFO\<close> record of its start and the \<open>WARNING\<close> record \<open>No results to save\<close>, and
  leaves every other file as it was.
\<close>

theorem save_to_file_empty_results_logs_only:
  "files (save_to_file w st [] query filename) = files st
   \<and> log_file (save_to_file w st [] query filename)
       = log_file st
         @ [(INFO, ''Saving results to file for query: '' @ [CHR 0x27] @ query @ [CHR 0x27]),
            (WARNING, ''No results to save'')]"
  by (simp add: save_to_file_def logger_def)

theorem save_to_file_empty_results_logs_only_witness:
  "files (save_to_file pdf_world old_storage [] ''rice'' None) = [''paper.pdf'' \<mapsto> ''old'']
   \<and> log_file (save_to_file pdf_world old_storage [] ''rice'' None)
       = [(INFO, ''Saving results to file for query: '' @ [CHR 0x27] @ ''rice'' @ [CHR 0x27]),
          (WARNING, ''No results to save'')]"
  using save_to_file_empty_results_logs_only [of pdf_world old_storage "''rice''" None]
  by (simp add: old_storage_def)

text \<open>
  C10 as stated fails: the storage is not left as it was, since the log file has two
  records more.
\<close>

theorem save_to_file_empty_results_counterexample:
  "save_to_file pdf_world old_storage [] ''rice'' None \<noteq> old_storage
   \<and> log_file old_storage = []
   \<and> log_file (save_to_file pdf_world old_storage [] ''rice'' None)
       = [(INFO, ''Saving results to file for query: '' @ [CHR 0x27] @ ''rice'' @ [CHR 0x27]),
          (WARNING, ''No results to save'')]"
proof -
  have l: "log_file (save_to_file pdf_world old_storage [] ''rice'' None)
       = [(INFO, ''Saving results to file for query: '' @ [CHR 0x27] @ ''rice'' @ [CHR 0x27]),
          (WARNING, ''No results to save'')]"
    by (simp add: save_to_file_def logger_def old_storage_def)
  have o: "log_file old_storage = []" by (simp add: old_storage_def)
  from l o have "save_to_file pdf_world old_storage [] ''rice'' None \<noteq> old_storage"
    by auto
  with l o show ?thesis by simp
qed

section \<open>Writing and reading the results\<close>

lemma split_on_not_Nil: "split_on sep s \<noteq> []"
  by (induction s) (auto split: list.splits)

lemma split_on_line:
  "sep \<notin> set l \<Longrightarrow> split_on sep (l @ sep # rest) = l # split_on sep rest"
  by (induction l) (auto split: list.splits)

lemma digit_not_dot: "d < 10 \<Longrightarrow> char_of (48 + d :: nat) \<noteq> CHR ''.''"
proof
  assume d: "d < 10" and "char_of (48 + d) = CHR ''.''"
  then have "(of_char (char_of (48 + d) :: char) :: nat) = of_char CHR ''.''" by simp
  with d show False by simp
qed

lemma digit_not_newline: "d < 10 \<Longrightarrow> char_of (48 + d :: nat) \<noteq> newline"
proof
  assume d: "d < 10" and "char_of (48 + d) = newline"
  then have "(of_char (char_of (48 + d) :: char) :: nat) = of_char newline" by simp
  with d show False by (simp add: newline_def)
qed

lemma str_nat_chars: "CHR ''.'' \<notin> set (str_nat n) \<and> newline \<notin> set (str_nat n)"
proof (induction n rule: str_nat.induct)
  case (1 n)
  show ?case
  proof (cases "n < 10")
    case True
    then have "str_nat n = [char_of (48 + n)]" by (subst str_nat.simps) simp
    with True digit_not_dot [of n] digit_not_newline [of n] show ?thesis by auto
  next
    case False
    then have s: "str_nat n = str_nat (n div 10) @ [char_of (48 + n mod 10)]"
      by (subst str_nat.simps) simp
    have "n mod 10 < 10" by simp
    from digit_not_dot [OF this] digit_not_newline [OF this] False "1.IH" show ?thesis
      unfolding s by auto
  qed
qed

lemma dropWhile_until:
  "x \<notin> set xs \<Longrightarrow> dropWhile (\<lambda>c. c \<noteq> x) (xs @ x # ys) = x # ys"
  by (induction xs) auto

lemma read_title_numbered: "read_title (str_nat i @ ''. '' @ t) = t"
proof -
  have "dropWhile (\<lambda>c. c \<noteq> CHR ''.'') (str_nat i @ CHR ''.'' # ('' '' @ t)) = CHR ''.'' # ('' '' @ t)"
    using str_nat_chars [of i] by (intro dropWhile_until) simp
  then show ?thesis by (simp add: read_title_def)
qed

lemma read_write_results:
  assumes "\<forall>r \<in> set results.
             newline \<notin> set (title r) \<and> newline \<notin> set (authors r)
             \<and> newline \<notin> set (source r) \<and> newline \<notin> set (link r)"
  shows "read_records (split_on newline (write_results results i)) = results"
  using assms
proof (induction results arbitrary: i)
  case Nil
  then show ?case by simp
next
  case (Cons r rs)
  let ?l1 = "str_nat i @ ''. '' @ title r"
  let ?l2 = "''   Authors: '' @ authors r"
  let ?l3 = "''   Source: '' @ source r"
  let ?l4 = "''   Link: '' @ link r"
  let ?rest = "write_results rs (Suc i)"
  from Cons.prems have n: "newline \<notin> set ?l1" "newline \<notin> set ?l2" "newline \<notin> set ?l3"
      "newline \<notin> set ?l4"
    using str_nat_chars [of i] by (auto simp: newline_def)
  have w: "write_results (r # rs) i
             = ?l1 @ newline # (?l2 @ newline # (?l3 @ newline # (?l4 @ newline # ([] @ newline # ?rest))))"
    by simp
  have "split_on newline (write_results (r # rs) i)
          = ?l1 # ?l2 # ?l3 # ?l4 # [] # split_on newline ?rest"
    unfolding w using n by (simp only: split_on_line list.set empty_iff not_False_eq_True)
  moreover have "read_records (split_on newline ?rest) = rs"
    using Cons.IH [of "Suc i"] Cons.prems by simp
  moreover have "read_title ?l1 = title r" by (rule read_title_numbered)
  ultimately show ?case by simp
qed

lemma read_file_text:
  assumes "\<forall>r \<in> set results.
             newline \<notin> set (title r) \<and> newline \<notin> set (authors r)
             \<and> newline \<notin> set (source r) \<and> newline \<notin> set (link r)"
      and "newline \<notin> set query"
  shows "read_results (file_text results query) = results"
proof -
  let ?h = "''NepJol Search Results for: '' @ query"
  let ?sep = "replicate 60 CHR ''=''"
  from assms(2) have n: "newline \<notin> set ?h" "newline \<notin> set ?sep"
    by (auto simp: newline_def)
  have f: "file_text results query
             = ?h @ newline # (?sep @ newline # ([] @ newline # write_results results 1))"
    by (simp add: file_text_def)
  have "split_on newline (file_text results query)
          = ?h # ?sep # [] # split_on newline (write_results results 1)"
    unfolding f using n by (simp only: split_on_line list.set empty_iff not_False_eq_True)
  then show ?thesis
    by (simp add: read_results_def read_write_results [OF assms(1)])
qed

text \<open>
  C8, as the code has it. When no field of the results and not the query contains a line
  break, reading the exported text gives back the results: as many records, with the
  same titles, authors, sources and links, in the same order; this is so for the text
  that \<open>save_to_file\<close> writes for a non-empty list of results.
\<close>

theorem export_round_trip:
  assumes "\<forall>r \<in> set results.
             newline \<notin> set (title r) \<and> newline \<notin> set (authors r)
             \<and> newline \<notin> set (source r) \<and> newline \<notin> set (link r)"
      and "newline \<notin> set query"
  shows "read_results (file_text results query) = results
         \<and> (results \<noteq> [] \<and> filename \<noteq> [] \<and> can_open w filename \<longrightarrow>
              (\<exists>content.
                  files (save_to_file w st results query (Some filename)) filename = Some content
                \<and> read_results content = results))"
proof -
  have r: "read_results (file_text results query) = results"
    using assms by (rule read_file_text)
  have "files (save_to_file w st results query (Some filename)) filename
          = Some (file_text results query)"
    if "results \<noteq> []" "filename \<noteq> []" "can_open w filename"
    using that by (simp add: save_to_file_def logger_def)
  with r show ?thesis by simp
qed

theorem export_round_trip_witness:
  "newline \<notin> set ''rice''
   \<and> read_results (file_text [rice_article, rice_article\<lparr>title := ''Maize''\<rparr>] ''rice'')
       = [rice_article, rice_article\<lparr>title := ''Maize''\<rparr>]
   \<and> (\<exists>content.
         files (save_to_file pdf_world empty_storage
                  [rice_article, rice_article\<lparr>title := ''Maize''\<rparr>]
                  ''rice'' (Some ''out.txt'')) ''out.txt'' = Some content
       \<and> read_results content = [rice_article, rice_article\<lparr>title := ''Maize''\<rparr>])"
proof -
  let ?rs = "[rice_article, rice_article\<lparr>title := ''Maize''\<rparr>]"
  have a: "\<forall>r \<in> set ?rs.
             newline \<notin> set (title r) \<and> newline \<notin> set (authors r)
             \<and> newline \<notin> set (source r) \<and> newline \<notin> set (link r)"
    by (simp add: rice_article_def newline_def)
  have q: "newline \<notin> set ''rice''" by (simp add: newline_def)
  have o: "?rs \<noteq> [] \<and> ''out.txt'' \<noteq> [] \<and> can_open pdf_world ''out.txt''"
    by (simp add: pdf_world_def serving_def)
  from export_round_trip [OF a q, of "''out.txt''" pdf_world empty_storage] o q
  show ?thesis by blast
qed

text \<open>
  C8 as stated fails: a field that contains a line break makes the text ambiguous. The
  two results below differ and are written as the same text, so no reader gives back
  both; the reader above gives back neither.
\<close>

theorem export_round_trip_counterexample:
  "file_text [break_in_authors] ''rice'' = file_text [break_in_source] ''rice''
   \<and> break_in_authors \<noteq> break_in_source
   \<and> read_results (file_text [break_in_authors] ''rice'') \<noteq> [break_in_authors]
   \<and> read_results (file_text [break_in_source] ''rice'') \<noteq> [break_in_source]"
  by code_simp

end
